theory Spec2Isabelle
  imports Main "HOL-Library.Word"
begin

section \<open>Platform types and constants\<close>

text \<open>
  The file is the OpenBSD back end of psutil (process_info_openbsd.c). On OpenBSD/amd64
  \<^verbatim>\<open>long\<close> and \<^verbatim>\<open>size_t\<close> are 64 bits wide, \<^verbatim>\<open>int\<close> and \<^verbatim>\<open>pid_t\<close> are 32 bits wide.
  Passing a \<^verbatim>\<open>long\<close> where an \<^verbatim>\<open>int\<close> is expected (\<^verbatim>\<open>mib[3] = pid\<close>, \<^verbatim>\<open>kill(pid, 0)\<close>)
  keeps the low 32 bits, which is \<open>ucast\<close>.
\<close>

type_synonym size_t = "64 word"
type_synonym long = "64 word"
type_synonym cint = "32 word"
type_synonym pid_t = "32 word"

text \<open>The values of errno the code compares with, as OpenBSD's errno.h numbers them.\<close>

definition EPERM :: int where "EPERM = 1"
definition ESRCH :: int where "ESRCH = 3"
definition ENOMEM :: int where "ENOMEM = 12"

text \<open>
  The names a sysctl request is made of. Their numbers are in sys/sysctl.h, which is not
  part of the repository; the code only passes them on, so they stay symbolic.
\<close>

datatype mib_name = CTL_KERN | KERN_PROC | KERN_PROC_ARGS | KERN_ARGMAX | KERN_PROC_ARGV
  | Pid pid_t

section \<open>The process state the functions act on\<close>

text \<open>
  How a call of a C function ends: it returns a value; it ends the whole process
  (\<^verbatim>\<open>err(1, NULL)\<close> prints a message and exits with the given status); an \<^verbatim>\<open>assert\<close> fails;
  or control reaches the end of a function that has to return a value without meeting a
  \<^verbatim>\<open>return\<close>, so that the caller reads a value nobody has set.
\<close>

datatype 'a outcome = Return 'a | Exit int | Abort | Indeterminate

datatype py_exc = MemoryError | OSError int

text \<open>Every call that leaves the function, and every store through an out-parameter.\<close>

datatype event =
    Kvm_openfiles | Kvm_getprocs | Kvm_close
  | Malloc size_t | Realloc size_t | Free
  | Sysctl "mib_name list" "size_t option"
  | Kill pid_t cint
  | Fprintf string
  | Err int
  | Store_size size_t

text \<open>
  \<open>errno\<close> is the C variable; \<open>kd_open\<close> counts the kernel handles that are open,
  \<open>heap_blocks\<close> the blocks of the C heap that are allocated and not freed; \<open>pyerr\<close> is
  Python's error indicator; \<open>argv_static\<close> is the \<^verbatim>\<open>static char **argv\<close> of
  \<^verbatim>\<open>get_argv\<close> (\<open>None\<close> is the null pointer, otherwise the capacity of the block and
  the argument strings it holds); \<open>trace\<close> lists the events, oldest first.
\<close>

record sys =
  errno :: int
  kd_open :: nat
  heap_blocks :: nat
  pyerr :: "py_exc option"
  argv_static :: "(size_t \<times> string list) option"
  trace :: "event list"

definition emit :: "event \<Rightarrow> sys \<Rightarrow> sys" where
  "emit ev s = s\<lparr>trace := trace s @ [ev]\<rparr>"

subsection \<open>The library and kernel calls\<close>

text \<open>
  The kernel and the allocator are outside the program: what they answer is a parameter
  of each call. An answer \<open>None\<close> of type \<open>int option\<close> is success, \<open>Some e\<close> is
  failure with \<open>errno\<close> set to \<open>e\<close>.
\<close>

definition fprintf_stderr :: "string \<Rightarrow> sys \<Rightarrow> sys" where
  "fprintf_stderr msg s = emit (Fprintf msg) s"

text \<open>\<^verbatim>\<open>err(status, NULL)\<close>: the message is written, then the process ends.\<close>

definition err :: "int \<Rightarrow> sys \<Rightarrow> sys" where
  "err status s = emit (Err status) s"

definition c_malloc :: "int option \<Rightarrow> size_t \<Rightarrow> sys \<Rightarrow> bool \<times> sys" where
  "c_malloc answer n s =
     (case answer of
        None \<Rightarrow> (True, emit (Malloc n) (s\<lparr>heap_blocks := Suc (heap_blocks s)\<rparr>))
      | Some e \<Rightarrow> (False, emit (Malloc n) (s\<lparr>errno := e\<rparr>)))"

definition c_free :: "sys \<Rightarrow> sys" where
  "c_free s = emit Free (s\<lparr>heap_blocks := heap_blocks s - 1\<rparr>)"

definition c_kill :: "int option \<Rightarrow> pid_t \<Rightarrow> cint \<Rightarrow> sys \<Rightarrow> int \<times> sys" where
  "c_kill answer pid sig s =
     (case answer of
        None \<Rightarrow> (0, emit (Kill pid sig) s)
      | Some e \<Rightarrow> (- 1, emit (Kill pid sig) (s\<lparr>errno := e\<rparr>)))"

definition kvm_openfiles :: "int option \<Rightarrow> sys \<Rightarrow> bool \<times> sys" where
  "kvm_openfiles answer s =
     (case answer of
        None \<Rightarrow> (True, emit Kvm_openfiles (s\<lparr>kd_open := Suc (kd_open s)\<rparr>))
      | Some e \<Rightarrow> (False, emit Kvm_openfiles (s\<lparr>errno := e\<rparr>)))"

text \<open>
  \<^verbatim>\<open>kvm_getprocs\<close> answers with the null pointer (\<open>Inl e\<close>, \<open>errno\<close> set to \<open>e\<close>) or with
  the kernel's array of process descriptors; \<^verbatim>\<open>cnt\<close> is the length of that array.
\<close>

definition kvm_getprocs :: "int + 'kp list \<Rightarrow> sys \<Rightarrow> 'kp list option \<times> sys" where
  "kvm_getprocs answer s =
     (case answer of
        Inl e \<Rightarrow> (None, emit Kvm_getprocs (s\<lparr>errno := e\<rparr>))
      | Inr procs \<Rightarrow> (Some procs, emit Kvm_getprocs s))"

definition kvm_close :: "sys \<Rightarrow> sys" where
  "kvm_close s = emit Kvm_close (s\<lparr>kd_open := kd_open s - 1\<rparr>)"

text \<open>
  \<^verbatim>\<open>sysctl(mib, n, oldp, &oldlen, NULL, 0)\<close>. On success the kernel stores the length of
  the data through \<^verbatim>\<open>oldlenp\<close> and the data through \<^verbatim>\<open>oldp\<close>; on failure it sets
  \<open>errno\<close>, and OpenBSD returns before the length is copied out, so a failed call leaves
  the caller's length variable as it was. The second argument of \<open>Sysctl\<close> in the trace
  is the capacity of the buffer handed in (\<open>None\<close> for a null buffer).
\<close>

datatype 'a sysctl_answer = Sysctl_ok size_t 'a | Sysctl_err int

definition sysctl ::
  "'a sysctl_answer \<Rightarrow> mib_name list \<Rightarrow> size_t option \<Rightarrow> sys \<Rightarrow> 'a sysctl_answer \<times> sys" where
  "sysctl answer mib oldlen s =
     (case answer of
        Sysctl_ok n x \<Rightarrow> (answer, emit (Sysctl mib oldlen) s)
      | Sysctl_err e \<Rightarrow> (answer, emit (Sysctl mib oldlen) (s\<lparr>errno := e\<rparr>)))"

definition PyErr_NoMemory :: "sys \<Rightarrow> sys" where
  "PyErr_NoMemory s = s\<lparr>pyerr := Some MemoryError\<rparr>"

text \<open>\<^verbatim>\<open>PyErr_SetFromErrno(PyExc_OSError)\<close>\<close>

definition PyErr_SetFromErrno :: "sys \<Rightarrow> sys" where
  "PyErr_SetFromErrno s = s\<lparr>pyerr := Some (OSError (errno s))\<rparr>"

text \<open>
  \<^verbatim>\<open>argv = realloc(argv, n)\<close> on the static buffer of \<^verbatim>\<open>get_argv\<close>: a null \<^verbatim>\<open>argv\<close> makes
  it an allocation; a failure leaves the old block allocated and stores the null pointer
  in \<^verbatim>\<open>argv\<close>.
\<close>

definition realloc_argv :: "int option \<Rightarrow> size_t \<Rightarrow> sys \<Rightarrow> bool \<times> sys" where
  "realloc_argv answer n s =
     (case answer of
        None \<Rightarrow>
          (True,
           emit (Realloc n)
             (case argv_static s of
                None \<Rightarrow> s\<lparr>argv_static := Some (n, []), heap_blocks := Suc (heap_blocks s)\<rparr>
              | Some (c, held) \<Rightarrow> s\<lparr>argv_static := Some (n, held)\<rparr>))
      | Some e \<Rightarrow> (False, emit (Realloc n) (s\<lparr>errno := e, argv_static := None\<rparr>)))"

section \<open>psutil\_get\_proc\_list\<close>

text \<open>
  \<^verbatim>\<open>
  int psutil_get_proc_list(struct kinfo_proc **procList, size_t *procCount) {
      int err; struct kinfo_proc *result; ... int cnt; kvm_t *kd;
      assert( procList != NULL); assert(*procList == NULL); assert(procCount != NULL);
      kd = kvm_openfiles(NULL, NULL, NULL, KVM_NO_FILES, errbuf);
      if (kd == NULL) { fprintf(stderr, "WWWWWWWWWWWWWWWWWW\n"); return errno; }
      result = kvm_getprocs(kd, KERN_PROC_ALL, 0, sizeof(struct kinfo_proc), &cnt);
      if (result == NULL) { fprintf(stderr, "UUUUUUUUUUUUUUUUUU\n"); err(1, NULL); return errno; }
      *procCount = (size_t)cnt;
      size_t mlen = cnt * sizeof(struct kinfo_proc);
      if ((*procList = malloc(mlen)) == NULL) {
          fprintf(stderr, "ZZZZZZZZZZZZZZZZZZ\n"); err(1, NULL); return errno; }
      memcpy(*procList, result, mlen);
      assert(*procList != NULL);
      kvm_close(kd);
      return 0;
  }
  \<close>
  \<^verbatim>\<open>err(1, NULL)\<close> is read as the call of err(3) that it is written as (the local
  \<^verbatim>\<open>int err\<close> of the same name is never used as a variable): it ends the process with
  status 1, and the \<^verbatim>\<open>return errno\<close> after it is never reached. \<^verbatim>\<open>struct kinfo_proc\<close>
  is declared in a system header; the code copies the records without looking into them,
  so their type is the parameter \<open>'kp\<close> and their size a parameter of the world.
\<close>

record 'kp table_world =
  openfiles_answer :: "int option"
  getprocs_answer :: "int + 'kp list"
  table_malloc_answer :: "size_t \<Rightarrow> int option"
  sizeof_kinfo_proc :: size_t

text \<open>The two out-parameters: \<^verbatim>\<open>*procList\<close> (\<open>None\<close> is the null pointer) and \<^verbatim>\<open>*procCount\<close>.\<close>

record 'kp proc_out =
  procList :: "'kp list option"
  procCount :: size_t

definition psutil_get_proc_list ::
  "'kp table_world \<Rightarrow> 'kp proc_out \<Rightarrow> sys \<Rightarrow> int outcome \<times> 'kp proc_out \<times> sys" where
  "psutil_get_proc_list w out s =
     (if procList out \<noteq> None then (Abort, out, s)
      else
        (case kvm_openfiles (openfiles_answer w) s of
           (False, s1) \<Rightarrow>
             (let s2 = fprintf_stderr (''WWWWWWWWWWWWWWWWWW'' @ [CHR 0x0A]) s1
              in (Return (errno s2), out, s2))
         | (True, s1) \<Rightarrow>
             (case kvm_getprocs (getprocs_answer w) s1 of
                (None, s2) \<Rightarrow>
                  (let s3 = fprintf_stderr (''UUUUUUUUUUUUUUUUUU'' @ [CHR 0x0A]) s2
                   in (Exit 1, out, err 1 s3))
              | (Some result, s2) \<Rightarrow>
                  (let cnt = length result;
                       out1 = out\<lparr>procCount := word_of_nat cnt\<rparr>;
                       mlen = word_of_nat cnt * sizeof_kinfo_proc w
                   in case c_malloc (table_malloc_answer w mlen) mlen s2 of
                        (False, s3) \<Rightarrow>
                          (let s4 = fprintf_stderr (''ZZZZZZZZZZZZZZZZZZ'' @ [CHR 0x0A]) s3
                           in (Exit 1, out1\<lparr>procList := None\<rparr>, err 1 s4))
                      | (True, s3) \<Rightarrow>
                          (Return 0, out1\<lparr>procList := Some result\<rparr>, kvm_close s3)))))"

section \<open>psutil\_get\_cmd\_path and psutil\_get\_cmd\_args\<close>

text \<open>
  \<^verbatim>\<open>
  char *psutil_get_cmd_path(long pid, size_t *pathsize) {
      int mib[4]; char *path; size_t size = 0;
      mib[0] = CTL_KERN; mib[1] = KERN_PROC; mib[2] = KERN_PROC_ARGS; mib[3] = pid;
      if (sysctl(mib, 4, NULL, &size, NULL, 0) == -1) { return NULL; }
      path = malloc(size);
      if (path == NULL) { PyErr_NoMemory(); return NULL; }
      *pathsize = size;
      if (sysctl(mib, 4, path, &size, NULL, 0) == -1) { free(path); return NULL; }
      return path;
  }
  \<close>
  The result is the pointer returned (\<open>None\<close> is the null pointer, \<open>Some\<close> the bytes of
  the buffer handed to the caller), the value of \<^verbatim>\<open>*pathsize\<close> and the state. The
  variable \<^verbatim>\<open>size\<close> is \<open>sz\<close> after the sizing query and \<open>sz'\<close> after the second one.
\<close>

record path_world =
  size_answer :: "pid_t \<Rightarrow> unit sysctl_answer"
  path_malloc_answer :: "size_t \<Rightarrow> int option"
  path_answer :: "pid_t \<Rightarrow> size_t \<Rightarrow> string sysctl_answer"

definition psutil_get_cmd_path ::
  "path_world \<Rightarrow> long \<Rightarrow> size_t \<Rightarrow> sys \<Rightarrow> string option \<times> size_t \<times> sys" where
  "psutil_get_cmd_path w pid pathsize s =
     (let mib = [CTL_KERN, KERN_PROC, KERN_PROC_ARGS, Pid (ucast pid)]
      in case sysctl (size_answer w (ucast pid)) mib None s of
           (Sysctl_err e, s1) \<Rightarrow> (None, pathsize, s1)
         | (Sysctl_ok sz u, s1) \<Rightarrow>
             (case c_malloc (path_malloc_answer w sz) sz s1 of
                (False, s2) \<Rightarrow> (None, pathsize, PyErr_NoMemory s2)
              | (True, s2) \<Rightarrow>
                  (let s3 = emit (Store_size sz) s2
                   in case sysctl (path_answer w (ucast pid) sz) mib (Some sz) s3 of
                        (Sysctl_err e, s4) \<Rightarrow> (None, sz, c_free s4)
                      | (Sysctl_ok sz' path, s4) \<Rightarrow> (Some path, sz, s4))))"

text \<open>
  \<^verbatim>\<open>
  char *psutil_get_cmd_args(long pid, size_t *argsize) {
      int mib[4], argmax; size_t size = sizeof(argmax); char *procargs = NULL;
      mib[0] = CTL_KERN; mib[1] = KERN_ARGMAX;
      size = sizeof(argmax);
      if (sysctl(mib, 2, &argmax, &size, NULL, 0) == -1) return NULL;
      procargs = (char *)malloc(argmax);
      if (procargs == NULL) { PyErr_NoMemory(); return NULL; }
      mib[0] = CTL_KERN; mib[1] = KERN_PROC; mib[2] = KERN_PROC_ARGS; mib[3] = pid;
      size = argmax;
      if (sysctl(mib, 4, procargs, &size, NULL, 0) == -1) { free(procargs); return NULL; }
      *argsize = size;
      return procargs;
  }
  \<close>
  \<^verbatim>\<open>argmax\<close> is an \<^verbatim>\<open>int\<close>; as the argument of \<^verbatim>\<open>malloc\<close> and in \<^verbatim>\<open>size = argmax\<close> it is
  converted to \<^verbatim>\<open>size_t\<close> with its sign (\<open>scast\<close>).
\<close>

record args_world =
  argmax_answer :: "cint sysctl_answer"
  args_malloc_answer :: "size_t \<Rightarrow> int option"
  args_answer :: "pid_t \<Rightarrow> size_t \<Rightarrow> string sysctl_answer"

definition psutil_get_cmd_args ::
  "args_world \<Rightarrow> long \<Rightarrow> size_t \<Rightarrow> sys \<Rightarrow> string option \<times> size_t \<times> sys" where
  "psutil_get_cmd_args w pid argsize s =
     (case sysctl (argmax_answer w) [CTL_KERN, KERN_ARGMAX] (Some 4) s of
        (Sysctl_err e, s1) \<Rightarrow> (None, argsize, s1)
      | (Sysctl_ok sz0 argmax, s1) \<Rightarrow>
          (case c_malloc (args_malloc_answer w (scast argmax)) (scast argmax) s1 of
             (False, s2) \<Rightarrow> (None, argsize, PyErr_NoMemory s2)
           | (True, s2) \<Rightarrow>
               (let mib = [CTL_KERN, KERN_PROC, KERN_PROC_ARGS, Pid (ucast pid)];
                    sz = scast argmax
                in case sysctl (args_answer w (ucast pid) sz) mib (Some sz) s2 of
                     (Sysctl_err e, s3) \<Rightarrow> (None, argsize, c_free s3)
                   | (Sysctl_ok sz' procargs, s3) \<Rightarrow>
                       (Some procargs, sz', emit (Store_size sz') s3))))"

section \<open>get\_argv and psutil\_get\_arg\_list\<close>

text \<open>
  \<^verbatim>\<open>
  char **get_argv(long pid) {
      static char **argv;
      char **p;
      int argv_mib[] = {CTL_KERN, KERN_PROC_ARGS, pid, KERN_PROC_ARGV};
      size_t argv_size = 128;
      /* Loop and reallocate until we have enough space to fit argv. */
      for (;; argv_size *= 2) {
          if ((argv = realloc(argv, argv_size)) == NULL)
              err(1, NULL);
          if (sysctl(argv_mib, 4, argv, &argv_size, NULL, 0) == 0)
              break;
          if (errno == ESRCH) { PyErr_SetFromErrno(PyExc_OSError); return NULL; }
          if (errno != ENOMEM)
              err(1, NULL);
      }
  \<close>
  The text of the function ends here: there is no \<^verbatim>\<open>return\<close> after the loop (and no
  closing brace), the next line of the file starts \<^verbatim>\<open>psutil_get_arg_list\<close>. A run that
  leaves the loop by \<^verbatim>\<open>break\<close> therefore returns no value (\<open>Indeterminate\<close>).

  The loop has no bound of its own, so the model takes fuel: \<open>None\<close> is a run that needs
  more turns than the fuel given. The world answers the \<open>i\<close>-th turn of the loop
  (\<open>i = 0, 1, ...\<close>): \<open>realloc_answer w i n\<close> to the request for \<open>n\<close> bytes,
  \<open>argv_answer w i pid n\<close> to the query into a buffer of \<open>n\<close> bytes.
\<close>

definition argv_mib :: "long \<Rightarrow> mib_name list" where
  "argv_mib pid = [CTL_KERN, KERN_PROC_ARGS, Pid (ucast pid), KERN_PROC_ARGV]"

record argv_world =
  realloc_answer :: "nat \<Rightarrow> size_t \<Rightarrow> int option"
  argv_answer :: "nat \<Rightarrow> pid_t \<Rightarrow> size_t \<Rightarrow> string list sysctl_answer"

fun get_argv_loop ::
  "nat \<Rightarrow> argv_world \<Rightarrow> long \<Rightarrow> nat \<Rightarrow> size_t \<Rightarrow> sys \<Rightarrow> (string list option outcome \<times> sys) option" where
  "get_argv_loop 0 w pid i argv_size s = None"
| "get_argv_loop (Suc fuel) w pid i argv_size s =
     (case realloc_argv (realloc_answer w i argv_size) argv_size s of
        (False, s1) \<Rightarrow> Some (Exit 1, err 1 s1)
      | (True, s1) \<Rightarrow>
          (case sysctl (argv_answer w i (ucast pid) argv_size) (argv_mib pid)
                  (Some argv_size) s1 of
             (Sysctl_ok len args, s2) \<Rightarrow>
               Some (Indeterminate, s2\<lparr>argv_static := Some (argv_size, args)\<rparr>)
           | (Sysctl_err e, s2) \<Rightarrow>
               if errno s2 = ESRCH then Some (Return None, PyErr_SetFromErrno s2)
               else if errno s2 \<noteq> ENOMEM then Some (Exit 1, err 1 s2)
               else get_argv_loop fuel w pid (Suc i) (argv_size * 2) s2))"

definition get_argv ::
  "nat \<Rightarrow> argv_world \<Rightarrow> long \<Rightarrow> sys \<Rightarrow> (string list option outcome \<times> sys) option" where
  "get_argv fuel w pid s = get_argv_loop fuel w pid 0 128 s"

text \<open>
  \<^verbatim>\<open>
  PyObject *psutil_get_arg_list(long pid) {
      static char **argv; char **p;
      PyObject *retlist = Py_BuildValue("[]");
      PyObject *item = NULL;
      if (pid < 0) { return retlist; }
      if ((argv = get_argv(pid)) == NULL)
          return NULL;
      for (p = argv; *p != NULL; p++) {
          item = Py_BuildValue("s", *p);
          PyList_Append(retlist, item);
          Py_DECREF(item);
      }
      return retlist;
  }
  \<close>
  A Python list of strings is a \<open>string list\<close>, the null pointer is \<open>None\<close>. The code
  does not test what \<^verbatim>\<open>Py_BuildValue\<close> returns, and neither does the model: building a
  Python object succeeds.
\<close>

definition psutil_get_arg_list ::
  "nat \<Rightarrow> argv_world \<Rightarrow> long \<Rightarrow> sys \<Rightarrow> (string list option outcome \<times> sys) option" where
  "psutil_get_arg_list fuel w pid s =
     (let retlist = []
      in if pid <s 0 then Some (Return (Some retlist), s)
         else
           (case get_argv fuel w pid s of
              None \<Rightarrow> None
            | Some (Return None, s1) \<Rightarrow> Some (Return None, s1)
            | Some (Return (Some argv), s1) \<Rightarrow>
                Some (Return (Some (foldl (\<lambda>l p. l @ [p]) retlist argv)), s1)
            | Some (Exit status, s1) \<Rightarrow> Some (Exit status, s1)
            | Some (Abort, s1) \<Rightarrow> Some (Abort, s1)
            | Some (Indeterminate, s1) \<Rightarrow> Some (Indeterminate, s1)))"

section \<open>psutil\_pid\_exists\<close>

text \<open>
  \<^verbatim>\<open>
  int psutil_pid_exists(long pid) {
      int kill_ret;
      if (pid < 0) { return 0; }
      kill_ret = kill(pid , 0);
      if ((0 == kill_ret) || (EPERM == errno)) { return 1; }
      return 0;
  }
  \<close>
  \<open>kill_answer\<close> is what the kernel answers to the probe of a process identifier.
\<close>

definition psutil_pid_exists :: "(pid_t \<Rightarrow> int option) \<Rightarrow> long \<Rightarrow> sys \<Rightarrow> int \<times> sys" where
  "psutil_pid_exists kill_answer pid s =
     (if pid <s 0 then (0, s)
      else
        (case c_kill (kill_answer (ucast pid)) (ucast pid) 0 s of
           (kill_ret, s1) \<Rightarrow>
             if 0 = kill_ret \<or> EPERM = errno s1 then (1, s1) else (0, s1)))"

section \<open>Observations on states and traces\<close>

text \<open>A process that has made no call yet.\<close>

definition boot :: sys where
  "boot = \<lparr>errno = 0, kd_open = 0, heap_blocks = 0, pyerr = None, argv_static = None,
            trace = []\<rparr>"

text \<open>The capacities asked of \<^verbatim>\<open>realloc\<close>, in the order of the requests: one for each turn
  of the loop of \<^verbatim>\<open>get_argv\<close>.\<close>

fun capacities :: "event list \<Rightarrow> size_t list" where
  "capacities [] = []"
| "capacities (Realloc n # evs) = n # capacities evs"
| "capacities (ev # evs) = capacities evs"

text \<open>The state after a turn of the loop whose \<^verbatim>\<open>realloc\<close> to \<open>n\<close> bytes succeeded and
  whose query got \<open>answer\<close>.\<close>

definition after_query :: "string list sysctl_answer \<Rightarrow> long \<Rightarrow> size_t \<Rightarrow> sys \<Rightarrow> sys" where
  "after_query answer pid n s =
     snd (sysctl answer (argv_mib pid) (Some n) (snd (realloc_argv None n s)))"

section \<open>Theorems\<close>

lemmas prims = emit_def fprintf_stderr_def err_def c_malloc_def c_free_def c_kill_def
  kvm_openfiles_def kvm_getprocs_def kvm_close_def sysctl_def PyErr_NoMemory_def
  PyErr_SetFromErrno_def realloc_argv_def

lemma esrch_not_enomem [simp]: "ESRCH \<noteq> ENOMEM"
  by (simp add: ESRCH_def ENOMEM_def)

lemma capacities_append: "capacities (xs @ ys) = capacities xs @ capacities ys"
  by (induction xs rule: capacities.induct) simp_all

subsection \<open>The process table reader\<close>

text \<open>
  Once the handle is open, it is closed on the path that returns 0 and on no other: both
  paths through \<^verbatim>\<open>err(1, NULL)\<close> leave it open.
\<close>

lemma proc_list_handle_closed_iff_success:
  assumes "openfiles_answer w = None" "procList out = None"
    "psutil_get_proc_list w out s = (r, out', s')"
  shows "kd_open s' = (if r = Return 0 then kd_open s else Suc (kd_open s))"
  using assms
  by (auto simp: psutil_get_proc_list_def prims Let_def split: sum.splits option.splits)

text \<open>
  C1 (the claim: once the kernel handle is open, it is released before the function
  returns on every exit path). The code calls \<^verbatim>\<open>kvm_close\<close> on the success path only.
  With the handle open, a query that returns no result ends the process with status 1
  and the handle still open, and so does a failed allocation: no \<open>Kvm_close\<close> is in
  either trace.
\<close>

theorem proc_list_failure_paths_leave_handle_open:
  "(case psutil_get_proc_list
           \<lparr>openfiles_answer = None, getprocs_answer = Inl ENOMEM,
            table_malloc_answer = (\<lambda>n. None), sizeof_kinfo_proc = 624\<rparr>
           \<lparr>procList = (None :: nat list option), procCount = 0\<rparr> boot of
      (r, out, s') \<Rightarrow> r = Exit 1 \<and> kd_open s' = 1 \<and> Kvm_close \<notin> set (trace s'))
   \<and> (case psutil_get_proc_list
           \<lparr>openfiles_answer = None, getprocs_answer = Inr [1, 2, 3 :: nat],
            table_malloc_answer = (\<lambda>n. Some ENOMEM), sizeof_kinfo_proc = 624\<rparr>
           \<lparr>procList = None, procCount = 0\<rparr> boot of
      (r, out, s') \<Rightarrow> r = Exit 1 \<and> kd_open s' = 1 \<and> Kvm_close \<notin> set (trace s'))"
  by (simp add: psutil_get_proc_list_def boot_def prims)

text \<open>
  C4: when the query reports zero processes (\<^verbatim>\<open>cnt == 0\<close>), the reader asks \<^verbatim>\<open>malloc\<close> for
  zero bytes, which OpenBSD answers with a block; it then returns 0, \<^verbatim>\<open>*procCount\<close> is 0
  and \<^verbatim>\<open>*procList\<close> is a valid, empty list. A count of zero is not treated as an error.
\<close>

theorem zero_count_is_success:
  assumes "procList out = None" "openfiles_answer w = None" "getprocs_answer w = Inr []"
    "table_malloc_answer w 0 = None"
  shows "case psutil_get_proc_list w out s of
           (r, out', s') \<Rightarrow> r = Return 0 \<and> procList out' = Some [] \<and> procCount out' = 0"
  using assms by (simp add: psutil_get_proc_list_def prims)

theorem zero_count_is_success_witness:
  "fst (psutil_get_proc_list
          \<lparr>openfiles_answer = None, getprocs_answer = Inr ([] :: nat list),
           table_malloc_answer = (\<lambda>n. None), sizeof_kinfo_proc = 624\<rparr>
          \<lparr>procList = None, procCount = 7\<rparr> boot) = Return 0
   \<and> fst (snd (psutil_get_proc_list
          \<lparr>openfiles_answer = None, getprocs_answer = Inr ([] :: nat list),
           table_malloc_answer = (\<lambda>n. None), sizeof_kinfo_proc = 624\<rparr>
          \<lparr>procList = None, procCount = 7\<rparr> boot)) = \<lparr>procList = Some [], procCount = 0\<rparr>"
  using zero_count_is_success
    [where w = "\<lparr>openfiles_answer = None, getprocs_answer = Inr ([] :: nat list),
                 table_malloc_answer = (\<lambda>n. None), sizeof_kinfo_proc = 624\<rparr>"
       and out = "\<lparr>procList = None, procCount = 7\<rparr>" and s = boot]
  by (simp add: case_prod_unfold proc_out.equality)

subsection \<open>The size-then-fetch readers\<close>

text \<open>
  C5: in \<open>psutil_get_cmd_path\<close> and \<open>psutil_get_cmd_args\<close>, when the query into the
  allocated buffer fails, the reader frees the buffer itself (the events after the first
  query end with \<open>Free\<close>, and as many blocks are allocated after the call as before) and
  returns the null pointer; and whenever either reader returns the null pointer, it has
  left no block behind for the caller.
\<close>

theorem fetch_failure_releases_buffer:
  "(size_answer w (ucast pid) = Sysctl_ok n u \<and> path_malloc_answer w n = None
      \<and> path_answer w (ucast pid) n = Sysctl_err e
    \<longrightarrow> (case psutil_get_cmd_path w pid pathsize s of
           (r, pathsize', s') \<Rightarrow>
             r = None \<and> heap_blocks s' = heap_blocks s
             \<and> drop (length (trace s) + 1) (trace s') =
                 [Malloc n, Store_size n,
                  Sysctl [CTL_KERN, KERN_PROC, KERN_PROC_ARGS, Pid (ucast pid)] (Some n),
                  Free]))
   \<and> (argmax_answer v = Sysctl_ok k argmax \<and> args_malloc_answer v (scast argmax) = None
      \<and> args_answer v (ucast pid) (scast argmax) = Sysctl_err e
    \<longrightarrow> (case psutil_get_cmd_args v pid argsize s of
           (r, argsize', s') \<Rightarrow>
             r = None \<and> heap_blocks s' = heap_blocks s
             \<and> drop (length (trace s) + 1) (trace s') =
                 [Malloc (scast argmax),
                  Sysctl [CTL_KERN, KERN_PROC, KERN_PROC_ARGS, Pid (ucast pid)]
                    (Some (scast argmax)),
                  Free]))
   \<and> (fst (psutil_get_cmd_path w pid pathsize s) = None
    \<longrightarrow> heap_blocks (snd (snd (psutil_get_cmd_path w pid pathsize s))) = heap_blocks s)
   \<and> (fst (psutil_get_cmd_args v pid argsize s) = None
    \<longrightarrow> heap_blocks (snd (snd (psutil_get_cmd_args v pid argsize s))) = heap_blocks s)"
  by (auto simp: psutil_get_cmd_path_def psutil_get_cmd_args_def prims Let_def
      split: sysctl_answer.splits option.splits)

theorem fetch_failure_releases_buffer_witness:
  "(case psutil_get_cmd_path
          \<lparr>size_answer = (\<lambda>p. Sysctl_ok 100 ()), path_malloc_answer = (\<lambda>n. None),
           path_answer = (\<lambda>p n. Sysctl_err EPERM)\<rparr> 77 0 boot of
      (r, pathsize', s') \<Rightarrow>
        r = None \<and> heap_blocks s' = 0
        \<and> drop 1 (trace s') =
            [Malloc 100, Store_size 100,
             Sysctl [CTL_KERN, KERN_PROC, KERN_PROC_ARGS, Pid 77] (Some 100), Free])
   \<and> (case psutil_get_cmd_args
          \<lparr>argmax_answer = Sysctl_ok 4 262144, args_malloc_answer = (\<lambda>n. None),
           args_answer = (\<lambda>p n. Sysctl_err EPERM)\<rparr> 77 0 boot of
      (r, argsize', s') \<Rightarrow>
        r = None \<and> heap_blocks s' = 0
        \<and> drop 1 (trace s') =
            [Malloc 262144,
             Sysctl [CTL_KERN, KERN_PROC, KERN_PROC_ARGS, Pid 77] (Some 262144), Free])"
  using fetch_failure_releases_buffer
    [where w = "\<lparr>size_answer = (\<lambda>p. Sysctl_ok 100 ()), path_malloc_answer = (\<lambda>n. None),
                 path_answer = (\<lambda>p n. Sysctl_err EPERM)\<rparr>"
       and v = "\<lparr>argmax_answer = Sysctl_ok 4 262144, args_malloc_answer = (\<lambda>n. None),
                 args_answer = (\<lambda>p n. Sysctl_err EPERM)\<rparr>"
       and pid = 77 and n = 100 and u = "()" and e = EPERM
       and k = 4 and argmax = 262144 and pathsize = 0 and argsize = 0 and s = boot]
  by (simp add: boot_def)

text \<open>
  C6: when the sizing query of \<open>psutil_get_cmd_path\<close> fails, the call returns the null
  pointer and the sizing query is the only event: no buffer is allocated.
\<close>

theorem sizing_failure_allocates_nothing:
  assumes "size_answer w (ucast pid) = Sysctl_err e"
  shows "case psutil_get_cmd_path w pid pathsize s of
           (r, pathsize', s') \<Rightarrow>
             r = None \<and> heap_blocks s' = heap_blocks s
             \<and> trace s' = trace s @
                 [Sysctl [CTL_KERN, KERN_PROC, KERN_PROC_ARGS, Pid (ucast pid)] None]"
  using assms by (simp add: psutil_get_cmd_path_def sysctl_def emit_def Let_def)

theorem sizing_failure_allocates_nothing_witness:
  "psutil_get_cmd_path
     \<lparr>size_answer = (\<lambda>p. Sysctl_err ESRCH), path_malloc_answer = (\<lambda>n. None),
      path_answer = (\<lambda>p n. Sysctl_ok 3 ''ls'')\<rparr> 77 5 boot
   = (None, 5,
      boot\<lparr>errno := ESRCH,
           trace := [Sysctl [CTL_KERN, KERN_PROC, KERN_PROC_ARGS, Pid 77] None]\<rparr>)"
  using sizing_failure_allocates_nothing
    [where w = "\<lparr>size_answer = (\<lambda>p. Sysctl_err ESRCH), path_malloc_answer = (\<lambda>n. None),
                 path_answer = (\<lambda>p n. Sysctl_ok 3 ''ls'')\<rparr>"
       and pid = 77 and e = ESRCH and pathsize = 5 and s = boot]
  by (simp add: psutil_get_cmd_path_def sysctl_def emit_def Let_def boot_def)

text \<open>
  C9: \<open>psutil_get_cmd_path\<close> stores the probed size through \<^verbatim>\<open>pathsize\<close> before it issues
  the second query (\<open>Store_size\<close> stands before the second \<open>Sysctl\<close> in the trace), so
  when that query fails the function returns the null pointer with \<^verbatim>\<open>*pathsize\<close> holding
  the probed size, whatever it held before.
\<close>

theorem pathsize_stored_before_fetch:
  assumes "size_answer w (ucast pid) = Sysctl_ok n u" "path_malloc_answer w n = None"
    "path_answer w (ucast pid) n = Sysctl_err e"
  shows "case psutil_get_cmd_path w pid pathsize s of
           (r, pathsize', s') \<Rightarrow>
             r = None \<and> pathsize' = n
             \<and> trace s' = trace s @
                 [Sysctl [CTL_KERN, KERN_PROC, KERN_PROC_ARGS, Pid (ucast pid)] None,
                  Malloc n, Store_size n,
                  Sysctl [CTL_KERN, KERN_PROC, KERN_PROC_ARGS, Pid (ucast pid)] (Some n),
                  Free]"
  using assms by (simp add: psutil_get_cmd_path_def prims Let_def)

theorem pathsize_stored_before_fetch_witness:
  "fst (psutil_get_cmd_path
          \<lparr>size_answer = (\<lambda>p. Sysctl_ok 100 ()), path_malloc_answer = (\<lambda>n. None),
           path_answer = (\<lambda>p n. Sysctl_err EPERM)\<rparr> 77 5 boot) = None
   \<and> fst (snd (psutil_get_cmd_path
          \<lparr>size_answer = (\<lambda>p. Sysctl_ok 100 ()), path_malloc_answer = (\<lambda>n. None),
           path_answer = (\<lambda>p n. Sysctl_err EPERM)\<rparr> 77 5 boot)) = 100
   \<and> trace (snd (snd (psutil_get_cmd_path
          \<lparr>size_answer = (\<lambda>p. Sysctl_ok 100 ()), path_malloc_answer = (\<lambda>n. None),
           path_answer = (\<lambda>p n. Sysctl_err EPERM)\<rparr> 77 5 boot))) =
       [Sysctl [CTL_KERN, KERN_PROC, KERN_PROC_ARGS, Pid 77] None,
        Malloc 100, Store_size 100,
        Sysctl [CTL_KERN, KERN_PROC, KERN_PROC_ARGS, Pid 77] (Some 100),
        Free]"
  using pathsize_stored_before_fetch
    [where w = "\<lparr>size_answer = (\<lambda>p. Sysctl_ok 100 ()), path_malloc_answer = (\<lambda>n. None),
                 path_answer = (\<lambda>p n. Sysctl_err EPERM)\<rparr>"
       and pid = 77 and n = 100 and u = "()" and e = EPERM and pathsize = 5 and s = boot]
  by (simp add: case_prod_unfold boot_def)

subsection \<open>The growth loop\<close>

text \<open>One turn of the loop of \<open>get_argv\<close>, by what the world answers.\<close>

lemma turn_realloc_fails:
  assumes "realloc_answer w i n = Some e"
  shows "get_argv_loop (Suc fuel) w pid i n s =
           Some (Exit 1, err 1 (emit (Realloc n) (s\<lparr>errno := e, argv_static := None\<rparr>)))"
  using assms by (simp add: realloc_argv_def)

lemma turn_query_ok:
  assumes "realloc_answer w i n = None" "argv_answer w i (ucast pid) n = Sysctl_ok len args"
  shows "get_argv_loop (Suc fuel) w pid i n s =
           Some (Indeterminate,
                 (after_query (Sysctl_ok len args) pid n s)\<lparr>argv_static := Some (n, args)\<rparr>)"
  using assms
  by (simp add: after_query_def realloc_argv_def sysctl_def)

lemma turn_query_err:
  assumes "realloc_answer w i n = None" "argv_answer w i (ucast pid) n = Sysctl_err e"
  shows "get_argv_loop (Suc fuel) w pid i n s =
           (if e = ESRCH then Some (Return None, PyErr_SetFromErrno (after_query (Sysctl_err e) pid n s))
            else if e \<noteq> ENOMEM then Some (Exit 1, err 1 (after_query (Sysctl_err e) pid n s))
            else get_argv_loop fuel w pid (Suc i) (n * 2) (after_query (Sysctl_err e) pid n s))"
  using assms
  by (simp add: after_query_def realloc_argv_def sysctl_def emit_def)

lemma capacities_after_query:
  "capacities (trace (after_query answer pid n s)) = capacities (trace s) @ [n]"
  by (cases answer)
     (simp_all add: after_query_def realloc_argv_def sysctl_def emit_def capacities_append
        split: option.splits)

lemma capacities_exit:
  "capacities (trace (err 1 s)) = capacities (trace s)"
  "capacities (trace (PyErr_SetFromErrno s)) = capacities (trace s)"
  "capacities (trace (s\<lparr>argv_static := b\<rparr>)) = capacities (trace s)"
  by (simp_all add: err_def emit_def PyErr_SetFromErrno_def capacities_append)


declare get_argv_loop.simps(2) [simp del]

text \<open>
  Every finished run has asked for \<open>n\<close>, \<open>2 * n\<close>, \<open>4 * n\<close>, ... bytes in its turns
  (in arithmetic modulo \<open>2 ^ 64\<close>), and every turn but the last was answered with ENOMEM.
\<close>

lemma get_argv_loop_run:
  "get_argv_loop fuel w pid i n s = Some (r, s') \<Longrightarrow>
     \<exists>k. capacities (trace s') = capacities (trace s) @ map (\<lambda>j. n * 2 ^ j) [0..<Suc k]
       \<and> (\<forall>j<k. realloc_answer w (i + j) (n * 2 ^ j) = None
                \<and> argv_answer w (i + j) (ucast pid) (n * 2 ^ j) = Sysctl_err ENOMEM)"
proof (induction fuel arbitrary: i n s)
  case 0
  then show ?case by simp
next
  case (Suc fuel)
  show ?case
  proof (cases "realloc_answer w i n")
    case (Some e)
    with Suc.prems have "capacities (trace s') = capacities (trace s) @ [n]"
      by (auto simp: turn_realloc_fails capacities_exit emit_def capacities_append)
    then show ?thesis by (intro exI [of _ 0]) simp
  next
    case None
    show ?thesis
    proof (cases "argv_answer w i (ucast pid) n")
      case (Sysctl_ok len args)
      with None Suc.prems have "capacities (trace s') = capacities (trace s) @ [n]"
        by (auto simp: turn_query_ok capacities_exit capacities_after_query)
      then show ?thesis by (intro exI [of _ 0]) simp
    next
      case (Sysctl_err e)
      show ?thesis
      proof (cases "e = ENOMEM")
        case False
        with None Sysctl_err Suc.prems have "capacities (trace s') = capacities (trace s) @ [n]"
          by (auto simp: turn_query_err capacities_exit capacities_after_query
              split: if_splits)
        then show ?thesis by (intro exI [of _ 0]) simp
      next
        case True
        with None Sysctl_err Suc.prems
        have "get_argv_loop fuel w pid (Suc i) (n * 2) (after_query (Sysctl_err e) pid n s)
                = Some (r, s')"
          by (simp add: turn_query_err ESRCH_def ENOMEM_def)
        from Suc.IH [OF this] obtain k where
          caps: "capacities (trace s') =
                   capacities (trace (after_query (Sysctl_err e) pid n s))
                   @ map (\<lambda>j. n * 2 * 2 ^ j) [0..<Suc k]"
          and retried: "\<forall>j<k. realloc_answer w (Suc i + j) (n * 2 * 2 ^ j) = None
                  \<and> argv_answer w (Suc i + j) (ucast pid) (n * 2 * 2 ^ j) = Sysctl_err ENOMEM"
          by blast
        have "capacities (trace s') =
                capacities (trace s) @ map (\<lambda>j. n * 2 ^ j) [0..<Suc (Suc k)]"
          unfolding caps capacities_after_query map_upt_Suc [of _ "Suc k"]
          by (simp add: mult.assoc)
        moreover have "\<forall>j<Suc k. realloc_answer w (i + j) (n * 2 ^ j) = None
                  \<and> argv_answer w (i + j) (ucast pid) (n * 2 ^ j) = Sysctl_err ENOMEM"
        proof (intro allI impI)
          fix j assume "j < Suc k"
          show "realloc_answer w (i + j) (n * 2 ^ j) = None
                  \<and> argv_answer w (i + j) (ucast pid) (n * 2 ^ j) = Sysctl_err ENOMEM"
          proof (cases j)
            case 0
            with None Sysctl_err True show ?thesis by simp
          next
            case (Suc j')
            with \<open>j < Suc k\<close> retried show ?thesis by (simp add: mult.assoc)
          qed
        qed
        ultimately show ?thesis by blast
      qed
    qed
  qed
qed

text \<open>No run of the loop returns a buffer: the only \<^verbatim>\<open>return\<close> in it returns the null
  pointer.\<close>

lemma get_argv_loop_never_returns_buffer:
  "get_argv_loop fuel w pid i n s = Some (r, s') \<Longrightarrow> r \<noteq> Return (Some b)"
proof (induction fuel arbitrary: i n s)
  case 0
  then show ?case by simp
next
  case (Suc fuel)
  show ?case
  proof (cases "realloc_answer w i n")
    case (Some e)
    with Suc.prems show ?thesis by (auto simp: turn_realloc_fails)
  next
    case None
    show ?thesis
    proof (cases "argv_answer w i (ucast pid) n")
      case (Sysctl_ok len args)
      with None Suc.prems show ?thesis by (auto simp: turn_query_ok)
    next
      case (Sysctl_err e)
      with None Suc.prems Suc.IH show ?thesis
        by (auto simp: turn_query_err split: if_splits)
    qed
  qed
qed

lemma pyerr_after_esrch:
  "pyerr (PyErr_SetFromErrno (after_query (Sysctl_err e) pid n s)) = Some (OSError e)"
  by (simp add: PyErr_SetFromErrno_def after_query_def sysctl_def emit_def)

lemma last_after_query:
  "last (trace (PyErr_SetFromErrno (after_query answer pid n s))) =
     Sysctl (argv_mib pid) (Some n)"
  by (cases answer) (simp_all add: PyErr_SetFromErrno_def after_query_def sysctl_def emit_def)

text \<open>After \<open>k\<close> turns answered with ENOMEM, an answer ESRCH in turn \<open>k\<close> ends the run there.\<close>

lemma get_argv_loop_esrch:
  assumes "\<forall>j<k. realloc_answer w (i + j) (n * 2 ^ j) = None
              \<and> argv_answer w (i + j) (ucast pid) (n * 2 ^ j) = Sysctl_err ENOMEM"
    and "realloc_answer w (i + k) (n * 2 ^ k) = None"
    and "argv_answer w (i + k) (ucast pid) (n * 2 ^ k) = Sysctl_err ESRCH"
  shows "\<exists>s'. get_argv_loop (Suc k + d) w pid i n s = Some (Return None, s')
           \<and> pyerr s' = Some (OSError ESRCH)
           \<and> capacities (trace s') = capacities (trace s) @ map (\<lambda>j. n * 2 ^ j) [0..<Suc k]
           \<and> last (trace s') = Sysctl (argv_mib pid) (Some (n * 2 ^ k))"
  using assms
proof (induction k arbitrary: i n s)
  case 0
  then show ?case
    by (simp add: turn_query_err capacities_after_query capacities_exit pyerr_after_esrch
        last_after_query)
next
  case (Suc k)
  from Suc.prems(1) [rule_format, of 0] have first: "realloc_answer w i n = None"
    "argv_answer w i (ucast pid) n = Sysctl_err ENOMEM"
    by simp_all
  have rest: "\<forall>j<k. realloc_answer w (Suc i + j) (n * 2 * 2 ^ j) = None
              \<and> argv_answer w (Suc i + j) (ucast pid) (n * 2 * 2 ^ j) = Sysctl_err ENOMEM"
  proof (intro allI impI)
    fix j assume "j < k"
    then have "Suc j < Suc k" by simp
    with Suc.prems(1) [rule_format, of "Suc j"]
    show "realloc_answer w (Suc i + j) (n * 2 * 2 ^ j) = None
              \<and> argv_answer w (Suc i + j) (ucast pid) (n * 2 * 2 ^ j) = Sysctl_err ENOMEM"
      by (simp add: mult.assoc)
  qed
  from Suc.prems(2,3) have final: "realloc_answer w (Suc i + k) (n * 2 * 2 ^ k) = None"
    "argv_answer w (Suc i + k) (ucast pid) (n * 2 * 2 ^ k) = Sysctl_err ESRCH"
    by (simp_all add: mult.assoc)
  from Suc.IH [OF rest final, of "after_query (Sysctl_err ENOMEM) pid n s"]
  obtain s' where run: "get_argv_loop (Suc k + d) w pid (Suc i) (n * 2)
          (after_query (Sysctl_err ENOMEM) pid n s) = Some (Return None, s')"
    and py: "pyerr s' = Some (OSError ESRCH)"
    and caps: "capacities (trace s') =
         capacities (trace (after_query (Sysctl_err ENOMEM) pid n s)) @
         map (\<lambda>j. n * 2 * 2 ^ j) [0..<Suc k]"
    and lst: "last (trace s') = Sysctl (argv_mib pid) (Some (n * 2 * 2 ^ k))"
    by blast
  have "get_argv_loop (Suc (Suc k) + d) w pid i n s = Some (Return None, s')"
    using first run by (simp add: turn_query_err ESRCH_def ENOMEM_def)
  moreover have "capacities (trace s') =
                capacities (trace s) @ map (\<lambda>j. n * 2 ^ j) [0..<Suc (Suc k)]"
    unfolding caps capacities_after_query map_upt_Suc [of _ "Suc k"]
    by (simp add: mult.assoc)
  ultimately show ?case using py lst by (simp add: mult.assoc)
qed

lemma unat_double:
  assumes "unat (n :: size_t) * 2 < 2 ^ 64"
  shows "unat (n * 2) = unat n * 2"
proof -
  have "unat n * unat (2 :: size_t) < 2 ^ LENGTH(64)" using assms by simp
  then have "unat (n * 2) = unat n * unat (2 :: size_t)"
    by (simp only: unat_mult_lem)
  then show ?thesis by simp
qed

text \<open>
  If the kernel never says ENOMEM to a buffer of \<open>need\<close> bytes or more, and doubling
  \<open>n\<close> \<open>k\<close> times reaches \<open>need\<close> below \<open>2 ^ 64\<close>, then the run ends within \<open>k + 1\<close>
  turns. Its last turn \<open>m\<close> is the first one that is not answered with ENOMEM (or whose
  \<^verbatim>\<open>realloc\<close> fails), and turn \<open>j\<close> asked for \<open>n * 2 ^ j\<close> bytes.
\<close>

lemma get_argv_loop_terminates:
  assumes big: "\<forall>i c. need \<le> unat c \<longrightarrow> argv_answer w i (ucast pid) c \<noteq> Sysctl_err ENOMEM"
  shows "need \<le> unat n * 2 ^ k \<Longrightarrow> unat n * 2 ^ k < 2 ^ 64 \<Longrightarrow>
         \<exists>r s' m. get_argv_loop (Suc k) w pid i n s = Some (r, s') \<and> m \<le> k
           \<and> map unat (capacities (trace s')) =
               map unat (capacities (trace s)) @ map (\<lambda>j. unat n * 2 ^ j) [0..<Suc m]
           \<and> (\<forall>j<m. realloc_answer w (i + j) (n * 2 ^ j) = None
                  \<and> argv_answer w (i + j) (ucast pid) (n * 2 ^ j) = Sysctl_err ENOMEM)
           \<and> \<not> (realloc_answer w (i + m) (n * 2 ^ m) = None
                  \<and> argv_answer w (i + m) (ucast pid) (n * 2 ^ m) = Sysctl_err ENOMEM)"
proof (induction k arbitrary: i n s)
  case 0
  then have enough: "argv_answer w i (ucast pid) n \<noteq> Sysctl_err ENOMEM"
    using big by simp
  show ?case
  proof (cases "realloc_answer w i n")
    case (Some e)
    then show ?thesis
      by (simp add: turn_realloc_fails capacities_exit emit_def capacities_append)
  next
    case None
    show ?thesis
    proof (cases "argv_answer w i (ucast pid) n")
      case (Sysctl_ok len args)
      with None show ?thesis
        by (simp add: turn_query_ok capacities_exit capacities_after_query)
    next
      case (Sysctl_err e)
      with enough have "e \<noteq> ENOMEM" by simp
      with None Sysctl_err show ?thesis
        by (simp add: turn_query_err capacities_exit capacities_after_query)
    qed
  qed
next
  case (Suc k)
  have stop: ?case
    if "get_argv_loop (Suc (Suc k)) w pid i n s = Some (r, s')"
      and "map unat (capacities (trace s')) = map unat (capacities (trace s)) @ [unat n]"
      and "\<not> (realloc_answer w i n = None
              \<and> argv_answer w i (ucast pid) n = Sysctl_err ENOMEM)"
    for r s'
    using that by (intro exI [of _ r] exI [of _ s'] exI [of _ 0]) simp
  show ?case
  proof (cases "realloc_answer w i n")
    case (Some e)
    then have "get_argv_loop (Suc (Suc k)) w pid i n s =
        Some (Exit 1, err 1 (emit (Realloc n) (s\<lparr>errno := e, argv_static := None\<rparr>)))"
      by (rule turn_realloc_fails)
    then show ?thesis
      by (rule stop) (use Some in \<open>simp_all add: capacities_exit emit_def capacities_append\<close>)
  next
    case None
    show ?thesis
    proof (cases "argv_answer w i (ucast pid) n")
      case (Sysctl_ok len args)
      with None have "get_argv_loop (Suc (Suc k)) w pid i n s =
          Some (Indeterminate,
                (after_query (Sysctl_ok len args) pid n s)\<lparr>argv_static := Some (n, args)\<rparr>)"
        by (rule turn_query_ok)
      then show ?thesis
        by (rule stop)
           (use Sysctl_ok in \<open>simp_all add: capacities_exit capacities_after_query\<close>)
    next
      case (Sysctl_err e)
      show ?thesis
      proof (cases "e = ENOMEM")
        case False
        then have "get_argv_loop (Suc (Suc k)) w pid i n s =
            Some (if e = ESRCH then Return None else Exit 1,
                  if e = ESRCH then PyErr_SetFromErrno (after_query (Sysctl_err e) pid n s)
                  else err 1 (after_query (Sysctl_err e) pid n s))"
          using None Sysctl_err by (simp add: turn_query_err)
        then show ?thesis
          by (rule stop)
             (use False Sysctl_err in \<open>simp_all add: capacities_exit capacities_after_query\<close>)
      next
        case True
        have "(1::nat) \<le> 2 ^ k" by simp
        then have "unat n * 2 * 1 \<le> unat n * 2 * 2 ^ k" by (rule mult_le_mono2)
        then have "unat n * 2 \<le> unat n * 2 ^ Suc k" by (simp add: mult.assoc)
        from le_less_trans [OF this Suc.prems(2)] have dbl: "unat (n * 2) = unat n * 2"
          by (rule unat_double)
        have "need \<le> unat (n * 2) * 2 ^ k" "unat (n * 2) * 2 ^ k < 2 ^ 64"
          using Suc.prems by (simp_all add: dbl mult.assoc)
        from Suc.IH [OF this, of "Suc i" "after_query (Sysctl_err e) pid n s"]
        obtain r s' m where run: "get_argv_loop (Suc k) w pid (Suc i) (n * 2)
               (after_query (Sysctl_err e) pid n s) = Some (r, s')"
          and m: "m \<le> k"
          and caps: "map unat (capacities (trace s')) =
               map unat (capacities (trace (after_query (Sysctl_err e) pid n s)))
               @ map (\<lambda>j. unat (n * 2) * 2 ^ j) [0..<Suc m]"
          and retried: "\<forall>j<m. realloc_answer w (Suc i + j) (n * 2 * 2 ^ j) = None
               \<and> argv_answer w (Suc i + j) (ucast pid) (n * 2 * 2 ^ j) = Sysctl_err ENOMEM"
          and final: "\<not> (realloc_answer w (Suc i + m) (n * 2 * 2 ^ m) = None
               \<and> argv_answer w (Suc i + m) (ucast pid) (n * 2 * 2 ^ m) = Sysctl_err ENOMEM)"
          by blast
        have run': "get_argv_loop (Suc (Suc k)) w pid i n s = Some (r, s')"
          using None Sysctl_err True run by (simp add: turn_query_err ESRCH_def ENOMEM_def)
        have caps': "map unat (capacities (trace s')) =
               map unat (capacities (trace s)) @ map (\<lambda>j. unat n * 2 ^ j) [0..<Suc (Suc m)]"
          unfolding caps capacities_after_query dbl map_upt_Suc [of _ "Suc m"]
          by (simp add: mult.assoc)
        have retried': "\<forall>j<Suc m. realloc_answer w (i + j) (n * 2 ^ j) = None
               \<and> argv_answer w (i + j) (ucast pid) (n * 2 ^ j) = Sysctl_err ENOMEM"
        proof (intro allI impI)
          fix j assume "j < Suc m"
          show "realloc_answer w (i + j) (n * 2 ^ j) = None
               \<and> argv_answer w (i + j) (ucast pid) (n * 2 ^ j) = Sysctl_err ENOMEM"
          proof (cases j)
            case 0
            with None Sysctl_err True show ?thesis by simp
          next
            case (Suc j')
            with \<open>j < Suc m\<close> retried show ?thesis by (simp add: mult.assoc)
          qed
        qed
        have final': "\<not> (realloc_answer w (i + Suc m) (n * 2 ^ Suc m) = None
               \<and> argv_answer w (i + Suc m) (ucast pid) (n * 2 ^ Suc m) = Sysctl_err ENOMEM)"
          using final by (simp add: mult.assoc)
        from run' m caps' retried' final' show ?thesis
          by (intro exI [of _ r] exI [of _ s'] exI [of _ "Suc m"]) simp
      qed
    qed
  qed
qed

text \<open>A run that has ended is not changed by more fuel.\<close>

lemma get_argv_loop_fuel_mono:
  "get_argv_loop fuel w pid i n s = Some x \<Longrightarrow> get_argv_loop (fuel + d) w pid i n s = Some x"
proof (induction fuel arbitrary: i n s)
  case 0
  then show ?case by simp
next
  case (Suc fuel)
  show ?case
  proof (cases "realloc_answer w i n")
    case (Some e)
    with Suc.prems show ?thesis by (simp add: turn_realloc_fails)
  next
    case None
    show ?thesis
    proof (cases "argv_answer w i (ucast pid) n")
      case (Sysctl_ok len args)
      with None Suc.prems show ?thesis by (simp add: turn_query_ok)
    next
      case (Sysctl_err e)
      with None Suc.prems Suc.IH show ?thesis
        by (simp add: turn_query_err split: if_splits)
    qed
  qed
qed

text \<open>
  C2 (the claim: when the query of \<open>get_argv\<close> succeeds, the function returns the buffer
  that holds the argv layout). The code leaves the loop with \<^verbatim>\<open>break\<close> and meets no
  \<^verbatim>\<open>return\<close>: with a query that succeeds in the first turn, the static buffer holds the
  arguments and the call returns no value.
\<close>

theorem get_argv_success_returns_no_value:
  "get_argv (Suc 0)
     \<lparr>realloc_answer = (\<lambda>i n. None),
      argv_answer = (\<lambda>i p n. Sysctl_ok 40 [''sh'', ''-c'', ''ls''])\<rparr> 1 boot
   = Some (Indeterminate,
           boot\<lparr>heap_blocks := 1, argv_static := Some (128, [''sh'', ''-c'', ''ls'']),
                trace := [Realloc 128, Sysctl (argv_mib 1) (Some 128)]\<rparr>)"
  by (simp add: get_argv_def get_argv_loop.simps(2) realloc_argv_def sysctl_def emit_def
      boot_def)

text \<open>
  C3: let the kernel never answer ENOMEM to a buffer of \<open>need\<close> bytes or more, with
  \<open>need \<le> 128 * 2 ^ k\<close> (and \<open>k \<le> 56\<close>, so that \<open>128 * 2 ^ k\<close> is a \<^verbatim>\<open>size_t\<close>). Then
  \<open>get_argv\<close> ends, with whatever outcome, after \<open>m + 1 \<le> k + 1\<close> turns of its loop.
  Every turn before the last was answered with ENOMEM and was followed by a retry, the
  last turn \<open>m\<close> is the first one that was not, and turn \<open>j\<close> asked for exactly
  \<open>128 * 2 ^ j\<close> bytes: each ENOMEM answer is retried with twice the capacity.
\<close>

theorem growth_loop_doubles_and_terminates:
  assumes "need \<le> 128 * 2 ^ k" and "k \<le> 56"
    and "\<forall>i c. need \<le> unat c \<longrightarrow> argv_answer w i (ucast pid) c \<noteq> Sysctl_err ENOMEM"
  shows "\<exists>r s' m. get_argv (Suc k) w pid s = Some (r, s') \<and> m \<le> k
           \<and> map unat (capacities (trace s')) =
               map unat (capacities (trace s)) @ map (\<lambda>j. 128 * 2 ^ j) [0..<Suc m]
           \<and> (\<forall>j<m. realloc_answer w j (128 * 2 ^ j) = None
                  \<and> argv_answer w j (ucast pid) (128 * 2 ^ j) = Sysctl_err ENOMEM)
           \<and> \<not> (realloc_answer w m (128 * 2 ^ m) = None
                  \<and> argv_answer w m (ucast pid) (128 * 2 ^ m) = Sysctl_err ENOMEM)"
proof -
  have "(2::nat) ^ k \<le> 2 ^ 56" using assms(2) by (intro power_increasing) simp_all
  then have "(128::nat) * 2 ^ k < 2 ^ 64" by simp
  with get_argv_loop_terminates [OF assms(3), of 128 k 0 s] assms(1)
  show ?thesis by (simp add: get_argv_def)
qed

theorem growth_loop_doubles_and_terminates_witness:
  "(300 :: nat) \<le> 128 * 2 ^ 2 \<and> (2 :: nat) \<le> 56
   \<and> (\<exists>r s'. get_argv (Suc 2)
          \<lparr>realloc_answer = (\<lambda>i n. None),
           argv_answer = (\<lambda>i p c. if unat c < 300 then Sysctl_err ENOMEM
                                    else Sysctl_ok 40 [''sh'', ''-c'', ''ls''])\<rparr> 77 boot
          = Some (r, s')
        \<and> map unat (capacities (trace s')) = [128, 256, 512])"
proof -
  let ?w = "\<lparr>realloc_answer = (\<lambda>i n. None),
           argv_answer = (\<lambda>i p c. if unat c < 300 then Sysctl_err ENOMEM
                                    else Sysctl_ok 40 [''sh'', ''-c'', ''ls''])\<rparr>"
  have a: "(300 :: nat) \<le> 128 * 2 ^ 2" and b: "(2 :: nat) \<le> 56" by simp_all
  have c: "\<forall>i c. 300 \<le> unat c \<longrightarrow>
      argv_answer ?w i (ucast (77 :: long)) c \<noteq> Sysctl_err ENOMEM"
    by simp
  from growth_loop_doubles_and_terminates [OF a b c, of boot]
  obtain r s' m where run: "get_argv (Suc 2) ?w 77 boot = Some (r, s')"
    and m: "m \<le> 2"
    and caps: "map unat (capacities (trace s')) =
                 map unat (capacities (trace boot)) @ map (\<lambda>j. 128 * 2 ^ j) [0..<Suc m]"
    and final: "\<not> (realloc_answer ?w m (128 * 2 ^ m) = None
                  \<and> argv_answer ?w m (ucast (77 :: long)) (128 * 2 ^ m) = Sysctl_err ENOMEM)"
    by blast
  from m have "m = 0 \<or> m = 1 \<or> m = 2" by arith
  with final have "m = 2" by auto
  with caps have "map unat (capacities (trace s')) = [128, 256, 512]"
    by (simp add: boot_def upt_rec)
  with run have ex: "\<exists>r s'. get_argv (Suc 2) ?w 77 boot = Some (r, s')
        \<and> map unat (capacities (trace s')) = [128, 256, 512]"
    by (intro exI [of _ r] exI [of _ s']) simp
  show ?thesis by (rule conjI [OF a conjI [OF b ex]])
qed

text \<open>
  C7: when, after \<open>k\<close> turns answered with ENOMEM, the kernel answers ESRCH, \<open>get_argv\<close>
  returns the null pointer with Python's error set to \<open>OSError\<close> of ESRCH, and that query
  is the last event of the run: there is no further turn. And in every finished run,
  each turn that was followed by another one had been answered with ENOMEM: nothing else
  is retried.
\<close>

theorem esrch_ends_loop_only_enomem_retries:
  "((\<forall>j<k. realloc_answer w j (128 * 2 ^ j) = None
            \<and> argv_answer w j (ucast pid) (128 * 2 ^ j) = Sysctl_err ENOMEM)
     \<and> realloc_answer w k (128 * 2 ^ k) = None
     \<and> argv_answer w k (ucast pid) (128 * 2 ^ k) = Sysctl_err ESRCH
    \<longrightarrow> (\<exists>s'. get_argv (Suc k + d) w pid s = Some (Return None, s')
            \<and> pyerr s' = Some (OSError ESRCH)
            \<and> length (capacities (trace s')) = length (capacities (trace s)) + Suc k
            \<and> last (trace s') = Sysctl (argv_mib pid) (Some (128 * 2 ^ k))))
   \<and> (get_argv fuel w pid s = Some (r, s')
    \<longrightarrow> (\<forall>j. Suc j < length (capacities (trace s')) - length (capacities (trace s))
            \<longrightarrow> argv_answer w j (ucast pid) (128 * 2 ^ j) = Sysctl_err ENOMEM))"
proof (intro conjI impI)
  assume h: "(\<forall>j<k. realloc_answer w j (128 * 2 ^ j) = None
            \<and> argv_answer w j (ucast pid) (128 * 2 ^ j) = Sysctl_err ENOMEM)
     \<and> realloc_answer w k (128 * 2 ^ k) = None
     \<and> argv_answer w k (ucast pid) (128 * 2 ^ k) = Sysctl_err ESRCH"
  then have "\<forall>j<k. realloc_answer w (0 + j) (128 * 2 ^ j) = None
            \<and> argv_answer w (0 + j) (ucast pid) (128 * 2 ^ j) = Sysctl_err ENOMEM"
    and "realloc_answer w (0 + k) (128 * 2 ^ k) = None"
    and "argv_answer w (0 + k) (ucast pid) (128 * 2 ^ k) = Sysctl_err ESRCH"
    by simp_all
  from get_argv_loop_esrch [OF this, of d s]
  obtain s' where "get_argv_loop (Suc k + d) w pid 0 128 s = Some (Return None, s')"
    "pyerr s' = Some (OSError ESRCH)"
    "capacities (trace s') = capacities (trace s) @ map (\<lambda>j. 128 * 2 ^ j) [0..<Suc k]"
    "last (trace s') = Sysctl (argv_mib pid) (Some (128 * 2 ^ k))"
    by blast
  then show "\<exists>s'. get_argv (Suc k + d) w pid s = Some (Return None, s')
            \<and> pyerr s' = Some (OSError ESRCH)
            \<and> length (capacities (trace s')) = length (capacities (trace s)) + Suc k
            \<and> last (trace s') = Sysctl (argv_mib pid) (Some (128 * 2 ^ k))"
    by (intro exI [of _ s']) (simp add: get_argv_def)
next
  assume "get_argv fuel w pid s = Some (r, s')"
  then have "get_argv_loop fuel w pid 0 128 s = Some (r, s')"
    by (simp add: get_argv_def)
  from get_argv_loop_run [OF this] obtain m where
    caps: "capacities (trace s') = capacities (trace s) @ map (\<lambda>j. 128 * 2 ^ j) [0..<Suc m]"
    and retried: "\<forall>j<m. realloc_answer w (0 + j) (128 * 2 ^ j) = None
                \<and> argv_answer w (0 + j) (ucast pid) (128 * 2 ^ j) = Sysctl_err ENOMEM"
    by blast
  from caps have "length (capacities (trace s')) - length (capacities (trace s)) = Suc m"
    by simp
  with retried
  show "\<forall>j. Suc j < length (capacities (trace s')) - length (capacities (trace s))
            \<longrightarrow> argv_answer w j (ucast pid) (128 * 2 ^ j) = Sysctl_err ENOMEM"
    by simp
qed

theorem esrch_ends_loop_only_enomem_retries_witness:
  "\<exists>s'. get_argv (Suc (Suc 0))
          \<lparr>realloc_answer = (\<lambda>i n. None),
           argv_answer = (\<lambda>i p c. if i = 0 then Sysctl_err ENOMEM else Sysctl_err ESRCH)\<rparr>
          77 boot = Some (Return None, s')
        \<and> pyerr s' = Some (OSError ESRCH)
        \<and> length (capacities (trace s')) = Suc (Suc 0)
        \<and> last (trace s') = Sysctl (argv_mib 77) (Some 256)
        \<and> argv_answer
             \<lparr>realloc_answer = (\<lambda>i n. None),
              argv_answer = (\<lambda>i p c. if i = 0 then Sysctl_err ENOMEM else Sysctl_err ESRCH)\<rparr>
             0 (ucast (77 :: long)) (128 * 2 ^ 0) = Sysctl_err ENOMEM"
proof -
  let ?w = "\<lparr>realloc_answer = (\<lambda>i n. None),
           argv_answer = (\<lambda>i p c. if i = 0 then Sysctl_err ENOMEM else Sysctl_err ESRCH)\<rparr>"
  note inst = esrch_ends_loop_only_enomem_retries
    [where k = "Suc 0" and d = 0 and pid = 77 and s = boot and w = ?w]
  from inst [THEN conjunct1] obtain s' where
    run: "get_argv (Suc (Suc 0)) ?w 77 boot = Some (Return None, s')"
    and py: "pyerr s' = Some (OSError ESRCH)"
    and turns: "length (capacities (trace s')) = Suc (Suc 0)"
    and lst: "last (trace s') = Sysctl (argv_mib 77) (Some 256)"
    by (auto simp: boot_def)
  from inst [where fuel = "Suc (Suc 0)" and r = "Return None" and s' = s', THEN conjunct2]
    run turns
  have "argv_answer ?w 0 (ucast (77 :: long)) (128 * 2 ^ 0) = Sysctl_err ENOMEM"
    by (simp add: boot_def)
  with run py turns lst show ?thesis by blast
qed

text \<open>
  C10: for every negative process identifier \<open>psutil_get_arg_list\<close> returns the empty
  list it has just built; the state is the one it was called in, so \<open>get_argv\<close> was not
  run and neither the kernel nor the allocator was called.
\<close>

theorem negative_pid_empty_list:
  assumes "pid <s 0"
  shows "psutil_get_arg_list fuel w pid s = Some (Return (Some []), s)"
  using assms by (simp add: psutil_get_arg_list_def)

theorem negative_pid_empty_list_witness:
  "(- 1 :: long) <s 0
   \<and> psutil_get_arg_list 0
        \<lparr>realloc_answer = (\<lambda>i n. None), argv_answer = (\<lambda>i p c. Sysctl_err ESRCH)\<rparr>
        (- 1) boot = Some (Return (Some []), boot)"
proof -
  have neg: "(- 1 :: long) <s 0" by simp
  from negative_pid_empty_list [OF neg] neg show ?thesis by simp
qed

subsection \<open>The existence classifier\<close>

text \<open>
  C8: for every process identifier that is not negative, \<open>psutil_pid_exists\<close> returns 1
  exactly when the probe with signal 0 succeeds or fails with EPERM, and 0 for every
  other failure of the probe.
\<close>

theorem pid_exists_iff_probe:
  assumes "\<not> pid <s 0"
  shows "fst (psutil_pid_exists kill_answer pid s) =
           (if kill_answer (ucast pid) = None \<or> kill_answer (ucast pid) = Some EPERM
            then 1 else 0)"
  using assms
  by (cases "kill_answer (ucast pid)")
     (simp_all add: psutil_pid_exists_def c_kill_def emit_def)

theorem pid_exists_iff_probe_witness:
  "\<not> (4242 :: long) <s 0
   \<and> fst (psutil_pid_exists (\<lambda>p. None) 4242 boot) = 1
   \<and> fst (psutil_pid_exists (\<lambda>p. if p = 4242 then Some EPERM else Some ESRCH) 4242 boot) = 1
   \<and> fst (psutil_pid_exists (\<lambda>p. Some ESRCH) 4242 boot) = 0"
proof -
  have nonneg: "\<not> (4242 :: long) <s 0"
    by (simp add: word_sless_alt)
  show ?thesis
    using nonneg
      pid_exists_iff_probe [OF nonneg, of "\<lambda>p. None" boot]
      pid_exists_iff_probe [OF nonneg, of "\<lambda>p. if p = 4242 then Some EPERM else Some ESRCH" boot]
      pid_exists_iff_probe [OF nonneg, of "\<lambda>p. Some ESRCH" boot]
    by (simp add: EPERM_def ESRCH_def)
qed

end
